theory Spec2Isabelle
  imports Main "HOL-Library.Multiset" "HOL-Library.Product_Lexorder"
begin

section \<open>Sealed-bid auction pages: data model\<close>

text \<open>
  The development follows \<^verbatim>\<open>src/pages/AuctionDetail.tsx\<close> (the auction page: clock check,
  own-bid lookup, winner lookup, bid submission) and the \<^verbatim>\<open>Auctions\<close> page (the listing of
  active auctions). Both pages talk to a hosted relational store through a query client;
  the store is modelled as explicit tables that every operation receives and, when it
  writes, returns.

  Identifiers are strings. An instant is the number of milliseconds since the epoch, the
  value that \<^verbatim>\<open>new Date(...)\<close> holds and that the comparison of two dates compares. Amounts
  are the numbers typed into the bid field (\<^verbatim>\<open>type="number" step="1"\<close>); the pages only ever
  compare them, so they are integers here.
\<close>

type_synonym ident = string
type_synonym instant = int
type_synonym money = int

datatype status = Draft | Active | Ended | Cancelled

subsection \<open>Tables of the store\<close>

record product_row =
  prod_id :: ident
  prod_title :: string
  prod_description :: string
  prod_images :: "string list option"
  prod_seller_id :: ident

record auction_row =
  auc_id :: ident
  auc_product_id :: ident
  auc_start_price :: money
  auc_end_time :: instant
  auc_status :: status
  auc_created_at :: instant

record bid_row =
  auction_id :: ident
  bidder_id :: ident
  amount :: money
  created_at :: instant

record profile_row =
  profile_id :: ident
  full_name :: string

record Store =
  auctions :: "auction_row list"
  products :: "product_row list"
  bids :: "bid_row list"
  profiles :: "profile_row list"

subsection \<open>The query client\<close>

text \<open>
  Every request resolves to a pair \<^verbatim>\<open>{ data, error }\<close> of which exactly one is set, except
  that a lookup with \<^verbatim>\<open>maybeSingle\<close> may resolve with neither (no row). An error is
  identified by its code.
\<close>

type_synonym pg_error = string

datatype 'a response = Data 'a | Failure pg_error

definition PGRST116 :: pg_error where
  "PGRST116 = ''PGRST116''"

fun data_of :: "'a option response \<Rightarrow> 'a option" where
  "data_of (Data d) = d"
| "data_of (Failure e) = None"

fun error_of :: "'a response \<Rightarrow> pg_error option" where
  "error_of (Data d) = None"
| "error_of (Failure e) = Some e"

text \<open>
  The behaviour of the store that the pages cannot see in their own code is a parameter:
  \<^item> whether read requests currently fail (\<open>read_failure\<close>: the service cannot be reached,
    the request is refused);
  \<^item> the verdict of the store on a row offered for insertion into \<^verbatim>\<open>bids\<close> given the rows
    already there (\<open>insert_verdict\<close>: constraints and policies of the table as well as
    failures of the request, \<open>None\<close> meaning accepted and stored);
  \<^item> the order in which the store returns rows that the sort key of a query does not
    separate, which the query language leaves open (\<open>bid_tie_rank\<close> for \<^verbatim>\<open>bids\<close>,
    \<open>auction_tie_rank\<close> for \<^verbatim>\<open>auctions\<close>): among rows equal under the sort key the row of
    lower rank comes first, and rows of equal rank come as the table holds them. The
    rank is any function of the row, so every order of the tied rows is some store's.
\<close>

record backend =
  read_failure :: "pg_error option"
  insert_verdict :: "bid_row list \<Rightarrow> bid_row \<Rightarrow> pg_error option"
  bid_tie_rank :: "bid_row \<Rightarrow> nat"
  auction_tie_rank :: "auction_row \<Rightarrow> nat"

text \<open>
  \<^verbatim>\<open>.maybeSingle()\<close>: no row is \<^verbatim>\<open>data: null\<close> without error, one row is that row, more
  than one row is an error. \<^verbatim>\<open>.single()\<close>: exactly one row, anything else is an error.
\<close>

fun maybeSingle :: "backend \<Rightarrow> 'a list \<Rightarrow> 'a option response" where
  "maybeSingle be rows =
     (case read_failure be of
        Some e \<Rightarrow> Failure e
      | None \<Rightarrow>
         (case rows of
            [] \<Rightarrow> Data None
          | [r] \<Rightarrow> Data (Some r)
          | _ \<Rightarrow> Failure PGRST116))"

fun single :: "backend \<Rightarrow> 'a list \<Rightarrow> 'a option response" where
  "single be rows =
     (case read_failure be of
        Some e \<Rightarrow> Failure e
      | None \<Rightarrow>
         (case rows of
            [r] \<Rightarrow> Data (Some r)
          | _ \<Rightarrow> Failure PGRST116))"

fun select_rows :: "backend \<Rightarrow> 'a list \<Rightarrow> 'a list response" where
  "select_rows be rows =
     (case read_failure be of Some e \<Rightarrow> Failure e | None \<Rightarrow> Data rows)"

fun insert_bid :: "backend \<Rightarrow> Store \<Rightarrow> bid_row \<Rightarrow> pg_error option \<times> Store" where
  "insert_bid be s b =
     (case insert_verdict be (bids s) b of
        Some e \<Rightarrow> (Some e, s)
      | None \<Rightarrow> (None, s\<lparr>bids := bids s @ [b]\<rparr>))"

subsection \<open>State of the auction page\<close>

record Product =
  product_ident :: ident
  title :: string
  description :: string
  images :: "string list"
  seller_id :: ident

record Auction =
  auction_ident :: ident
  product :: Product
  start_price :: money
  end_time :: instant
  status :: status

record Winner =
  user_name :: string
  bid_amount :: money

text \<open>
  What the page shows through \<^verbatim>\<open>setError\<close>, one constructor per message:
  \<^item> \<open>PleaseSignIn\<close>: "Please sign in to place a bid";
  \<^item> \<open>AlreadyPlacedBid\<close>: "You have already placed a bid for this auction. ...";
  \<^item> \<open>MustBeHigherThanBase\<close>: "Bid amount must be higher than the base price";
  \<^item> \<open>AuctionNotFound\<close>: "Auction not found";
  \<^item> \<open>RequestFailed e\<close>: the message of a failed request, or the generic fallback text.
\<close>

datatype ui_error =
  PleaseSignIn
| AlreadyPlacedBid
| MustBeHigherThanBase
| AuctionNotFound
| RequestFailed pg_error

text \<open>What the page writes with \<^verbatim>\<open>console.error\<close>.\<close>

datatype console_entry =
  ErrorCheckingUserBid pg_error
| ErrorFetchingWinnerDetails pg_error

record Page =
  route_id :: ident
  user :: "ident option"
  auction :: "Auction option"
  loading :: bool
  error :: "ui_error option"
  bidAmount :: money
  hasUserBid :: bool
  userBidAmount :: "money option"
  winner :: "Winner option"
  showSuccessToast :: bool
  console :: "console_entry list"

text \<open>The state a freshly mounted page starts from (the \<^verbatim>\<open>useState\<close> initial values).\<close>

definition mounted :: "ident \<Rightarrow> ident option \<Rightarrow> Page" where
  "mounted i u =
     \<lparr>route_id = i, user = u, auction = None, loading = True, error = None,
      bidAmount = 0, hasUserBid = False, userBidAmount = None, winner = None,
      showSuccessToast = False, console = []\<rparr>"

section \<open>Clock check\<close>

text \<open>
  \<^verbatim>\<open>const isEnded = auction ? new Date(auction.end_time) < new Date() : false;\<close>
\<close>

definition isEnded :: "Page \<Rightarrow> instant \<Rightarrow> bool" where
  "isEnded p now = (case auction p of None \<Rightarrow> False | Some a \<Rightarrow> end_time a < now)"

section \<open>Own-bid lookup\<close>

text \<open>
  The lookup both \<^verbatim>\<open>checkUserBid\<close> and \<^verbatim>\<open>handleBidSubmit\<close> issue:
  \<^verbatim>\<open>from('bids').select('id, amount').eq('auction_id', id).eq('bidder_id', user.id).maybeSingle()\<close>.
  The response carries the selected column \<^verbatim>\<open>amount\<close> of the matching row (the generated
  key column of \<^verbatim>\<open>bids\<close> is not modelled).
\<close>

definition own_bid_query :: "backend \<Rightarrow> Store \<Rightarrow> ident \<Rightarrow> ident \<Rightarrow> money option response" where
  "own_bid_query be s i u =
     maybeSingle be (map amount (filter (\<lambda>b. auction_id b = i \<and> bidder_id b = u) (bids s)))"

text \<open>
  \<^verbatim>\<open>checkUserBid\<close>: returns at once without a user or a route id (the empty string is the
  falsy identifier); an error other than \<^verbatim>\<open>PGRST116\<close> is thrown, caught and logged;
  otherwise \<^verbatim>\<open>hasUserBid\<close> becomes \<^verbatim>\<open>!!data\<close> and the amount is stored when there is a row.
\<close>

definition checkUserBid :: "backend \<Rightarrow> Page \<Rightarrow> Store \<Rightarrow> Page" where
  "checkUserBid be p s =
     (case user p of
        None \<Rightarrow> p
      | Some u \<Rightarrow>
          if route_id p = [] then p
          else
            (case own_bid_query be s (route_id p) u of
               Failure e \<Rightarrow>
                 if e \<noteq> PGRST116
                 then p\<lparr>console := console p @ [ErrorCheckingUserBid e]\<rparr>
                 else p\<lparr>hasUserBid := False\<rparr>
             | Data None \<Rightarrow> p\<lparr>hasUserBid := False\<rparr>
             | Data (Some a) \<Rightarrow> p\<lparr>hasUserBid := True, userBidAmount := Some a\<rparr>))"

section \<open>Winner lookup\<close>

text \<open>
  \<^verbatim>\<open>from('bids').select('amount, bidder:bidder_id(full_name)').eq('auction_id', id)
    .order('amount', { ascending: false }).limit(1).single()\<close>.
  The only sort key is the amount, descending; the order of rows of equal amount is the
  store's (pairs are compared lexicographically: first the amount, then the store's
  rank). The joined \<^verbatim>\<open>bidder\<close> is the profile the bid refers to, or null when there is
  none.
\<close>

definition order_amount_desc :: "backend \<Rightarrow> bid_row list \<Rightarrow> bid_row list" where
  "order_amount_desc be rows = sort_key (\<lambda>b. (- amount b, bid_tie_rank be b)) rows"

definition join_bidder :: "Store \<Rightarrow> bid_row \<Rightarrow> money \<times> string option" where
  "join_bidder s b =
     (amount b, map_option full_name (find (\<lambda>r. profile_id r = bidder_id b) (profiles s)))"

definition winner_query :: "backend \<Rightarrow> Store \<Rightarrow> ident \<Rightarrow> (money \<times> string option) option response" where
  "winner_query be s i =
     single be (map (join_bidder s)
       (take 1 (order_amount_desc be (filter (\<lambda>b. auction_id b = i) (bids s)))))"

text \<open>
  \<^verbatim>\<open>fetchWinnerDetails\<close>: any error of the request is thrown, caught and logged; the winner
  is set when the row and its joined bidder are both present.
\<close>

definition fetchWinnerDetails :: "backend \<Rightarrow> Page \<Rightarrow> Store \<Rightarrow> Page" where
  "fetchWinnerDetails be p s =
     (if route_id p = [] then p
      else
        (case winner_query be s (route_id p) of
           Failure e \<Rightarrow> p\<lparr>console := console p @ [ErrorFetchingWinnerDetails e]\<rparr>
         | Data None \<Rightarrow> p
         | Data (Some (a, None)) \<Rightarrow> p
         | Data (Some (a, Some n)) \<Rightarrow> p\<lparr>winner := Some \<lparr>user_name = n, bid_amount = a\<rparr>\<rparr>))"

section \<open>Auction details\<close>

text \<open>
  \<^verbatim>\<open>from('auctions').select('id, start_price, end_time, status, product:product_id(...)')
    .eq('id', id).single()\<close>; a failed request shows its message, a missing row or product
  shows "Auction not found"; in every case \<^verbatim>\<open>loading\<close> ends.
\<close>

definition join_product :: "Store \<Rightarrow> auction_row \<Rightarrow> auction_row \<times> product_row option" where
  "join_product s a = (a, find (\<lambda>r. prod_id r = auc_product_id a) (products s))"

definition auction_query :: "backend \<Rightarrow> Store \<Rightarrow> ident \<Rightarrow> (auction_row \<times> product_row option) option response" where
  "auction_query be s i =
     single be (map (join_product s) (filter (\<lambda>a. auc_id a = i) (auctions s)))"

definition fetchAuctionDetails :: "backend \<Rightarrow> Page \<Rightarrow> Store \<Rightarrow> Page" where
  "fetchAuctionDetails be p s =
     (case auction_query be s (route_id p) of
        Failure e \<Rightarrow> p\<lparr>error := Some (RequestFailed e), loading := False\<rparr>
      | Data None \<Rightarrow> p\<lparr>error := Some AuctionNotFound, loading := False\<rparr>
      | Data (Some (a, None)) \<Rightarrow> p\<lparr>error := Some AuctionNotFound, loading := False\<rparr>
      | Data (Some (a, Some pr)) \<Rightarrow>
          p\<lparr>auction := Some
               \<lparr>auction_ident = auc_id a,
                product =
                  \<lparr>product_ident = prod_id pr, title = prod_title pr,
                   description = prod_description pr,
                   images = (case prod_images pr of None \<Rightarrow> [] | Some is \<Rightarrow> is),
                   seller_id = prod_seller_id pr\<rparr>,
                start_price = auc_start_price a, end_time = auc_end_time a,
                status = auc_status a\<rparr>,
            bidAmount := auc_start_price a,
            loading := False\<rparr>)"

section \<open>Bid submission\<close>

text \<open>
  \<^verbatim>\<open>handleBidSubmit\<close> awaits two requests. Up to the first await it checks the user and
  issues the own-bid lookup (\<open>own_bid_query\<close>); \<open>handleBidSubmit_resume\<close> is the code that
  runs once that lookup has resolved with response \<open>r\<close>: the test of \<^verbatim>\<open>existingBid\<close>, the
  test of the amount against the base price, the insert and the handling of its outcome.
  Only the \<^verbatim>\<open>data\<close> half of \<open>r\<close> is read.
\<close>

definition new_bid :: "Page \<Rightarrow> ident \<Rightarrow> instant \<Rightarrow> bid_row" where
  "new_bid p u now =
     \<lparr>auction_id = route_id p, bidder_id = u, amount = bidAmount p, created_at = now\<rparr>"

definition handleBidSubmit_resume ::
  "backend \<Rightarrow> instant \<Rightarrow> ident \<Rightarrow> money option response \<Rightarrow> Page \<Rightarrow> Store \<Rightarrow> Page \<times> Store" where
  "handleBidSubmit_resume be now u r p s =
     (case data_of r of
        Some a \<Rightarrow>
          (p\<lparr>error := Some AlreadyPlacedBid, hasUserBid := True, userBidAmount := Some a\<rparr>, s)
      | None \<Rightarrow>
          (case auction p of
             None \<Rightarrow> (p\<lparr>error := Some MustBeHigherThanBase\<rparr>, s)
           | Some auc \<Rightarrow>
               if bidAmount p \<le> start_price auc
               then (p\<lparr>error := Some MustBeHigherThanBase\<rparr>, s)
               else
                 (case insert_bid be s (new_bid p u now) of
                    (Some e, s') \<Rightarrow> (p\<lparr>error := Some (RequestFailed e)\<rparr>, s')
                  | (None, s') \<Rightarrow>
                      (p\<lparr>hasUserBid := True, userBidAmount := Some (bidAmount p),
                         showSuccessToast := True, error := None\<rparr>, s'))))"

definition handleBidSubmit :: "backend \<Rightarrow> instant \<Rightarrow> Page \<Rightarrow> Store \<Rightarrow> Page \<times> Store" where
  "handleBidSubmit be now p s =
     (case user p of
        None \<Rightarrow> (p\<lparr>error := Some PleaseSignIn\<rparr>, s)
      | Some u \<Rightarrow>
          handleBidSubmit_resume be now u (own_bid_query be s (route_id p) u) p s)"

text \<open>
  The page renders the bid form, whose submission is \<^verbatim>\<open>handleBidSubmit\<close>, only past the
  loading, error and missing-auction screens and under \<^verbatim>\<open>!isEnded && !hasUserBid\<close>.
\<close>

definition bidFormShown :: "Page \<Rightarrow> instant \<Rightarrow> bool" where
  "bidFormShown p now =
     (\<not> loading p \<and> error p = None \<and> auction p \<noteq> None \<and> \<not> isEnded p now \<and> \<not> hasUserBid p)"

section \<open>Loading the page\<close>

text \<open>
  The effect that runs when the route id is set: with a route id it starts
  \<^verbatim>\<open>fetchAuctionDetails\<close> and \<^verbatim>\<open>checkUserBid\<close>, and \<^verbatim>\<open>fetchWinnerDetails\<close> when \<^verbatim>\<open>isEnded\<close>
  holds in the render the effect belongs to. The three write disjoint parts of the state.
\<close>

definition useEffect_id :: "backend \<Rightarrow> instant \<Rightarrow> Page \<Rightarrow> Store \<Rightarrow> Page" where
  "useEffect_id be now p s =
     (if route_id p = [] then p
      else
        (let p1 = fetchAuctionDetails be p s;
             p2 = checkUserBid be p1 s
         in if isEnded p now then fetchWinnerDetails be p2 s else p2))"

section \<open>Listing of active auctions\<close>

text \<open>
  The \<^verbatim>\<open>Auctions\<close> page:
  \<^verbatim>\<open>from('auctions').select('id, start_price, end_time, status, product:product_id(...)')
    .eq('status', 'active').order('end_time', { ascending: true })\<close>.
  The order of auctions with the same end time is the store's.
\<close>

record AuctionsPage =
  listed :: "(auction_row \<times> product_row option) list"
  list_loading :: bool
  list_error :: "ui_error option"

definition fetchAuctions :: "backend \<Rightarrow> AuctionsPage \<Rightarrow> Store \<Rightarrow> AuctionsPage" where
  "fetchAuctions be l s =
     (case select_rows be
             (map (join_product s)
                (sort_key (\<lambda>a. (auc_end_time a, auction_tie_rank be a))
                   (filter (\<lambda>a. auc_status a = Active) (auctions s)))) of
        Failure e \<Rightarrow> l\<lparr>list_error := Some (RequestFailed e), list_loading := False\<rparr>
      | Data rows \<Rightarrow> l\<lparr>listed := rows, list_loading := False\<rparr>)"

section \<open>Submissions in flight\<close>

text \<open>
  Several pages (tabs, devices) may have a submission in flight against the same store.
  Each request is one atomic access to the store; between the two requests of one
  submission the requests of others may be served. A session is a page together with the
  response of its own-bid lookup while the code after the await has not run yet. The
  events are \<open>Lookup k\<close> (session \<open>k\<close> enters \<^verbatim>\<open>handleBidSubmit\<close> and its lookup is served)
  and \<open>Resume k t\<close> (the rest of the handler of session \<open>k\<close> runs at time \<open>t\<close>).
\<close>

record session =
  page :: Page
  pending :: "(ident \<times> money option response) option"

datatype event = Lookup nat | Resume nat instant

fun step :: "backend \<Rightarrow> event \<Rightarrow> Store \<times> session list \<Rightarrow> Store \<times> session list" where
  "step be (Lookup k) (s, ss) =
     (if k < length ss \<and> pending (ss ! k) = None
      then
        (let p = page (ss ! k) in
         case user p of
           None \<Rightarrow> (s, ss[k := (ss ! k)\<lparr>page := p\<lparr>error := Some PleaseSignIn\<rparr>\<rparr>])
         | Some u \<Rightarrow>
             (s, ss[k := (ss ! k)\<lparr>pending := Some (u, own_bid_query be s (route_id p) u)\<rparr>]))
      else (s, ss))"
| "step be (Resume k now) (s, ss) =
     (if k < length ss
      then
        (case pending (ss ! k) of
           None \<Rightarrow> (s, ss)
         | Some (u, r) \<Rightarrow>
             (case handleBidSubmit_resume be now u r (page (ss ! k)) s of
                (p', s') \<Rightarrow> (s', ss[k := \<lparr>page = p', pending = None\<rparr>])))
      else (s, ss))"

fun run :: "backend \<Rightarrow> event list \<Rightarrow> Store \<times> session list \<Rightarrow> Store \<times> session list" where
  "run be [] c = c"
| "run be (e # es) c = run be es (step be e c)"

text \<open>At most one bid per (auction, bidder) pair.\<close>

definition bid_key :: "bid_row \<Rightarrow> ident \<times> ident" where
  "bid_key b = (auction_id b, bidder_id b)"

definition one_bid_per_pair :: "bid_row list \<Rightarrow> bool" where
  "one_bid_per_pair bs = distinct (map bid_key bs)"

text \<open>A store whose \<^verbatim>\<open>bids\<close> table itself refuses a second row for a pair.\<close>

definition rejects_duplicates :: "backend \<Rightarrow> bool" where
  "rejects_duplicates be =
     (\<forall>bs b. insert_verdict be bs b = None \<longrightarrow> bid_key b \<notin> set (map bid_key bs))"

section \<open>Notions used to state the properties\<close>

text \<open>
  Two stores agree for an actor \<open>u\<close> (a signed-in user, or nobody) when they hold the
  same auctions and products and the same bids of \<open>u\<close>, in the same order: they differ at
  most in the bids of other bidders and in the profiles.
\<close>

definition agree_for :: "ident option \<Rightarrow> Store \<Rightarrow> Store \<Rightarrow> bool" where
  "agree_for u s s' =
     (auctions s = auctions s' \<and> products s = products s' \<and>
      filter (\<lambda>b. Some (bidder_id b) = u) (bids s)
        = filter (\<lambda>b. Some (bidder_id b) = u) (bids s'))"

text \<open>The rows whose amount no other row exceeds.\<close>

definition top_bids :: "bid_row list \<Rightarrow> bid_row list" where
  "top_bids rows = filter (\<lambda>b. \<forall>c \<in> set rows. amount c \<le> amount b) rows"

section \<open>Example data\<close>

text \<open>
  One auction \<open>a1\<close> with base price 100 ending at instant 1000, three bidders with a
  profile, and the bids 150 (by \<open>x\<close>, made at 1), 200 (by \<open>y\<close>, made at 2) and 200 (by
  \<open>z\<close>, made at 3); a further bid of 200 by \<open>w\<close>, who has no profile; and an auction
  \<open>a0\<close> with base price 10 that ended at 400.

  Three stores: one that accepts every row and returns tied rows as the table holds
  them, one that differs from it in refusing a second row for a pair, and one that
  differs from it in returning the rows of \<open>z\<close> first among tied rows.
\<close>

definition open_backend :: backend where
  "open_backend =
     \<lparr>read_failure = None, insert_verdict = (\<lambda>bs b. None), bid_tie_rank = (\<lambda>b. 0),
      auction_tie_rank = (\<lambda>a. 0)\<rparr>"

definition unique_backend :: backend where
  "unique_backend =
     \<lparr>read_failure = None,
      insert_verdict =
        (\<lambda>bs b. if bid_key b \<in> set (map bid_key bs) then Some ''23505'' else None),
      bid_tie_rank = (\<lambda>b. 0), auction_tie_rank = (\<lambda>a. 0)\<rparr>"

definition z_first_backend :: backend where
  "z_first_backend =
     \<lparr>read_failure = None, insert_verdict = (\<lambda>bs b. None),
      bid_tie_rank = (\<lambda>b. if bidder_id b = ''z'' then 0 else 1),
      auction_tie_rank = (\<lambda>a. 0)\<rparr>"

definition a0 :: Auction where
  "a0 =
     \<lparr>auction_ident = ''a0'',
      product =
        \<lparr>product_ident = ''p0'', title = ''Vase'', description = ''A vase'', images = [],
         seller_id = ''s''\<rparr>,
      start_price = 10, end_time = 400, status = Active\<rparr>"

definition bid_w :: bid_row where
  "bid_w = \<lparr>auction_id = ''a1'', bidder_id = ''w'', amount = 200, created_at = 4\<rparr>"

definition a1_product :: Product where
  "a1_product =
     \<lparr>product_ident = ''p1'', title = ''Clock'', description = ''A clock'', images = [],
      seller_id = ''s''\<rparr>"

definition a1 :: "status \<Rightarrow> Auction" where
  "a1 st =
     \<lparr>auction_ident = ''a1'', product = a1_product, start_price = 100, end_time = 1000,
      status = st\<rparr>"

definition a1_page :: "ident option \<Rightarrow> status \<Rightarrow> money \<Rightarrow> Page" where
  "a1_page u st amt =
     (mounted ''a1'' u)\<lparr>auction := Some (a1 st), loading := False, bidAmount := amt\<rparr>"

definition bid_x :: bid_row where
  "bid_x = \<lparr>auction_id = ''a1'', bidder_id = ''x'', amount = 150, created_at = 1\<rparr>"

definition bid_y :: bid_row where
  "bid_y = \<lparr>auction_id = ''a1'', bidder_id = ''y'', amount = 200, created_at = 2\<rparr>"

definition bid_z :: bid_row where
  "bid_z = \<lparr>auction_id = ''a1'', bidder_id = ''z'', amount = 200, created_at = 3\<rparr>"

definition a1_row :: auction_row where
  "a1_row =
     \<lparr>auc_id = ''a1'', auc_product_id = ''p1'', auc_start_price = 100,
      auc_end_time = 1000, auc_status = Active, auc_created_at = 0\<rparr>"

definition p1_row :: product_row where
  "p1_row =
     \<lparr>prod_id = ''p1'', prod_title = ''Clock'', prod_description = ''A clock'',
      prod_images = None, prod_seller_id = ''s''\<rparr>"

definition a1_store :: "bid_row list \<Rightarrow> Store" where
  "a1_store bs =
     \<lparr>auctions = [a1_row],
      products = [p1_row],
      bids = bs,
      profiles =
        [\<lparr>profile_id = ''x'', full_name = ''X''\<rparr>,
         \<lparr>profile_id = ''y'', full_name = ''Y''\<rparr>,
         \<lparr>profile_id = ''z'', full_name = ''Z''\<rparr>]\<rparr>"

text \<open>
  The page that showed the ended auction \<open>a0\<close> and whose route has changed to \<open>a1\<close>: the
  state still holds \<open>a0\<close>. And a winner as a page may hold it from an earlier lookup.
\<close>

definition stale_page :: "ident option \<Rightarrow> Page" where
  "stale_page u = (mounted ''a1'' u)\<lparr>auction := Some a0, loading := False, bidAmount := 10\<rparr>"

definition y_shown :: Winner where
  "y_shown = \<lparr>user_name = ''Y'', bid_amount = 200\<rparr>"

lemmas example_defs =
  open_backend_def unique_backend_def z_first_backend_def a0_def a1_product_def a1_def
  a1_page_def mounted_def bid_x_def bid_y_def bid_z_def bid_w_def a1_row_def p1_row_def
  a1_store_def stale_page_def y_shown_def bid_key_def

lemmas winner_defs =
  fetchWinnerDetails_def winner_query_def order_amount_desc_def join_bidder_def

lemmas op_defs =
  handleBidSubmit_def handleBidSubmit_resume_def own_bid_query_def new_bid_def isEnded_def

section \<open>The clock check\<close>

text \<open>
  Claim C9, as the code has it: the clock check is the strict comparison
  \<open>end_time < now\<close>. A page without a loaded auction is never ended, and a loaded auction
  is ended exactly when its end time lies strictly before the current instant; at the
  instant of its end time it is not yet ended.
\<close>

theorem isEnded_strict:
  "(auction p = None \<longrightarrow> \<not> isEnded p now) \<and>
   (\<forall>a. auction p = Some a \<longrightarrow> (isEnded p now \<longleftrightarrow> end_time a < now))"
  by (simp add: isEnded_def)

text \<open>The example auction ends at 1000: not ended at 1000, ended at 1001.\<close>

theorem isEnded_strict_witness:
  "auction (a1_page None Active 0) = Some (a1 Active) \<and>
   \<not> isEnded (a1_page None Active 0) 1000 \<and> isEnded (a1_page None Active 0) 1001 \<and>
   auction (mounted ''a1'' None) = None \<and> \<not> isEnded (mounted ''a1'' None) 5000"
  using isEnded_strict [of "a1_page None Active 0" 1000]
    isEnded_strict [of "a1_page None Active 0" 1001]
    isEnded_strict [of "mounted ''a1'' None" 5000]
  by (simp add: example_defs)

text \<open>
  Claim C9 as stated (the check is \<open>end_time \<le> now\<close>) fails where the end time equals
  the current instant.
\<close>

theorem isEnded_at_end_time_counterexample:
  "\<not> (isEnded (a1_page None Active 0) 1000 \<longleftrightarrow> end_time (a1 Active) \<le> 1000)"
  by (simp add: isEnded_def example_defs)

section \<open>Bid submission: what is checked, and in which order\<close>

text \<open>
  Claim C10: when the own-bid lookup of \<^verbatim>\<open>handleBidSubmit\<close> fails, its error is discarded
  and the submission goes on exactly as when the lookup finds no earlier bid. For a
  signed-in user, after a failed lookup as after an empty one, the handler does the
  following and nothing else: without a loaded auction, or with an amount at or below
  its base price, it shows the base-price message and stores nothing; otherwise it
  offers the bid for insertion, and shows the failure of the insert or, when the store
  accepts the row, the success state with the bid appended to the table. The error of
  the lookup occurs nowhere in the outcome.
\<close>

theorem handleBidSubmit_lookup_error_discarded:
  "user p = Some u \<Longrightarrow>
   own_bid_query be s (route_id p) u = Failure e \<or> own_bid_query be s (route_id p) u = Data None \<Longrightarrow>
   handleBidSubmit be now p s =
     (case auction p of
        None \<Rightarrow> (p\<lparr>error := Some MustBeHigherThanBase\<rparr>, s)
      | Some a \<Rightarrow>
          if bidAmount p \<le> start_price a
          then (p\<lparr>error := Some MustBeHigherThanBase\<rparr>, s)
          else
            (case insert_verdict be (bids s)
                    \<lparr>auction_id = route_id p, bidder_id = u, amount = bidAmount p,
                     created_at = now\<rparr> of
               Some e' \<Rightarrow> (p\<lparr>error := Some (RequestFailed e')\<rparr>, s)
             | None \<Rightarrow>
                 (p\<lparr>hasUserBid := True, userBidAmount := Some (bidAmount p),
                    showSuccessToast := True, error := None\<rparr>,
                  s\<lparr>bids := bids s @
                     [\<lparr>auction_id = route_id p, bidder_id = u, amount = bidAmount p,
                       created_at = now\<rparr>]\<rparr>)))"
  by (auto simp add: handleBidSubmit_def handleBidSubmit_resume_def new_bid_def
      split: option.splits)

text \<open>
  A bidder with two rows, whose lookup fails for that reason, gets a third bid stored;
  while reads fail with 503, a bidder with an earlier bid gets a second one stored or,
  with a low amount, the base-price message; a bidder without an earlier bid gets the
  same treatment after the empty lookup.
\<close>

theorem handleBidSubmit_lookup_error_discarded_witness:
  "user (a1_page (Some ''x'') Active 300) = Some ''x'' \<and>
   own_bid_query open_backend (a1_store [bid_x, bid_x]) ''a1'' ''x'' = Failure PGRST116 \<and>
   handleBidSubmit open_backend 500 (a1_page (Some ''x'') Active 300) (a1_store [bid_x, bid_x])
     = ((a1_page (Some ''x'') Active 300)
          \<lparr>hasUserBid := True, userBidAmount := Some 300, showSuccessToast := True,
           error := None\<rparr>,
        a1_store [bid_x, bid_x,
          \<lparr>auction_id = ''a1'', bidder_id = ''x'', amount = 300, created_at = 500\<rparr>]) \<and>
   own_bid_query (open_backend\<lparr>read_failure := Some ''503''\<rparr>) (a1_store [bid_y]) ''a1'' ''y''
     = Failure ''503'' \<and>
   snd (handleBidSubmit (open_backend\<lparr>read_failure := Some ''503''\<rparr>) 500
          (a1_page (Some ''y'') Active 300) (a1_store [bid_y]))
     = a1_store [bid_y,
          \<lparr>auction_id = ''a1'', bidder_id = ''y'', amount = 300, created_at = 500\<rparr>] \<and>
   error (fst (handleBidSubmit (open_backend\<lparr>read_failure := Some ''503''\<rparr>) 500
          (a1_page (Some ''y'') Active 100) (a1_store [bid_y])))
     = Some MustBeHigherThanBase \<and>
   own_bid_query open_backend (a1_store [bid_y]) ''a1'' ''z'' = Data None \<and>
   handleBidSubmit open_backend 500 (a1_page (Some ''z'') Active 300) (a1_store [bid_y])
     = ((a1_page (Some ''z'') Active 300)
          \<lparr>hasUserBid := True, userBidAmount := Some 300, showSuccessToast := True,
           error := None\<rparr>,
        a1_store [bid_y,
          \<lparr>auction_id = ''a1'', bidder_id = ''z'', amount = 300, created_at = 500\<rparr>])"
  using handleBidSubmit_lookup_error_discarded
      [of "a1_page (Some ''x'') Active 300" "''x''" open_backend "a1_store [bid_x, bid_x]"
        PGRST116 500]
    handleBidSubmit_lookup_error_discarded
      [of "a1_page (Some ''y'') Active 300" "''y''" "open_backend\<lparr>read_failure := Some ''503''\<rparr>"
        "a1_store [bid_y]" "''503''" 500]
    handleBidSubmit_lookup_error_discarded
      [of "a1_page (Some ''y'') Active 100" "''y''" "open_backend\<lparr>read_failure := Some ''503''\<rparr>"
        "a1_store [bid_y]" "''503''" 500]
    handleBidSubmit_lookup_error_discarded
      [of "a1_page (Some ''z'') Active 300" "''z''" open_backend "a1_store [bid_y]"
        PGRST116 500]
  by (simp add: own_bid_query_def example_defs PGRST116_def)




text \<open>
  Claim C5, as the code has it: \<^verbatim>\<open>handleBidSubmit\<close> checks, in this order, that a user is
  signed in (else "Please sign in"), that the own-bid lookup found no earlier bid (else
  "already placed", whatever the amount and the auction), and that an auction is loaded
  and the amount lies above its base price (else, for both, "must be higher than the
  base price"); the status of the auction is not checked. Past these checks the bid is
  inserted, and the verdict of the store decides between success and a failed request.
\<close>

theorem handleBidSubmit_check_order:
  "(user p = None \<longrightarrow>
      handleBidSubmit be now p s = (p\<lparr>error := Some PleaseSignIn\<rparr>, s)) \<and>
   (\<forall>u a. user p = Some u \<and> data_of (own_bid_query be s (route_id p) u) = Some a \<longrightarrow>
      error (fst (handleBidSubmit be now p s)) = Some AlreadyPlacedBid \<and>
      snd (handleBidSubmit be now p s) = s) \<and>
   (\<forall>u. user p = Some u \<and> data_of (own_bid_query be s (route_id p) u) = None \<and>
      (auction p = None \<or> (\<exists>a. auction p = Some a \<and> bidAmount p \<le> start_price a)) \<longrightarrow>
      error (fst (handleBidSubmit be now p s)) = Some MustBeHigherThanBase \<and>
      snd (handleBidSubmit be now p s) = s) \<and>
   (\<forall>u a. user p = Some u \<and> data_of (own_bid_query be s (route_id p) u) = None \<and>
      auction p = Some a \<and> start_price a < bidAmount p \<longrightarrow>
      (case insert_verdict be (bids s) (new_bid p u now) of
         Some e \<Rightarrow>
           error (fst (handleBidSubmit be now p s)) = Some (RequestFailed e) \<and>
           snd (handleBidSubmit be now p s) = s
       | None \<Rightarrow>
           error (fst (handleBidSubmit be now p s)) = None \<and>
           snd (handleBidSubmit be now p s) = s\<lparr>bids := bids s @ [new_bid p u now]\<rparr>))"
  by (auto simp add: handleBidSubmit_def handleBidSubmit_resume_def
      split: option.splits prod.splits)

theorem handleBidSubmit_check_order_witness:
  "user (a1_page (Some ''y'') Cancelled 80) = Some ''y'' \<and>
   data_of (own_bid_query open_backend (a1_store [bid_x, bid_y])
              (route_id (a1_page (Some ''y'') Cancelled 80)) ''y'') = Some 200 \<and>
   error (fst (handleBidSubmit open_backend 500 (a1_page (Some ''y'') Cancelled 80)
                 (a1_store [bid_x, bid_y])))
     = Some AlreadyPlacedBid \<and>
   user (a1_page (Some ''z'') Active 250) = Some ''z'' \<and>
   data_of (own_bid_query open_backend (a1_store [bid_x, bid_y])
              (route_id (a1_page (Some ''z'') Active 250)) ''z'') = None \<and>
   auction (a1_page (Some ''z'') Active 250) = Some (a1 Active) \<and>
   start_price (a1 Active) < bidAmount (a1_page (Some ''z'') Active 250) \<and>
   snd (handleBidSubmit open_backend 500 (a1_page (Some ''z'') Active 250)
          (a1_store [bid_x, bid_y]))
     = a1_store [bid_x, bid_y,
         \<lparr>auction_id = ''a1'', bidder_id = ''z'', amount = 250, created_at = 500\<rparr>] \<and>
   user (a1_page None Active 250) = None \<and>
   error (fst (handleBidSubmit open_backend 500 (a1_page None Active 250)
                 (a1_store [bid_x, bid_y])))
     = Some PleaseSignIn \<and>
   data_of (own_bid_query open_backend (a1_store [bid_x, bid_y])
              (route_id (a1_page (Some ''z'') Active 100)) ''z'') = None \<and>
   bidAmount (a1_page (Some ''z'') Active 100) \<le> start_price (a1 Active) \<and>
   error (fst (handleBidSubmit open_backend 500 (a1_page (Some ''z'') Active 100)
                 (a1_store [bid_x, bid_y])))
     = Some MustBeHigherThanBase"
  using handleBidSubmit_check_order
      [of "a1_page (Some ''y'') Cancelled 80" open_backend 500 "a1_store [bid_x, bid_y]"]
    handleBidSubmit_check_order
      [of "a1_page (Some ''z'') Active 250" open_backend 500 "a1_store [bid_x, bid_y]"]
    handleBidSubmit_check_order
      [of "a1_page None Active 250" open_backend 500 "a1_store [bid_x, bid_y]"]
    handleBidSubmit_check_order
      [of "a1_page (Some ''z'') Active 100" open_backend 500 "a1_store [bid_x, bid_y]"]
  by (simp add: op_defs example_defs)

text \<open>
  Claim C5 as stated fails. With an earlier bid and an amount below the base price, the
  failure reported is that of the earlier bid, not that of the amount; on a draft
  auction a low amount is reported as such and a sufficient amount is accepted, the
  status never being the reason of a failure.
\<close>

theorem handleBidSubmit_check_order_counterexample:
  "error (fst (handleBidSubmit open_backend 500 (a1_page (Some ''y'') Active 80)
                 (a1_store [bid_x, bid_y])))
     = Some AlreadyPlacedBid \<and>
   error (fst (handleBidSubmit open_backend 500 (a1_page (Some ''z'') Draft 80)
                 (a1_store [bid_x, bid_y])))
     = Some MustBeHigherThanBase \<and>
   error (fst (handleBidSubmit open_backend 500 (a1_page (Some ''z'') Draft 250)
                 (a1_store [bid_x, bid_y])))
     = None"
  by (simp add: op_defs example_defs)

text \<open>
  Claim C6, as the code has it: the amount is compared with the base price of the
  auction the page holds in its state. A submission whose amount is at or below that
  price never stores a bid, whatever the status of the auction, and ends with the
  sign-in message when no user is signed in, with the already-placed message when the
  own-bid lookup returned an earlier bid, and with the base-price message otherwise. In
  particular, on a page that has just loaded the auction of its route, an amount at or
  below the stored base price of that auction is never stored.
\<close>

theorem handleBidSubmit_low_amount:
  "(\<forall>a. auction p = Some a \<and> bidAmount p \<le> start_price a \<longrightarrow>
      snd (handleBidSubmit be now p s) = s \<and>
      error (fst (handleBidSubmit be now p s)) =
        (case user p of
           None \<Rightarrow> Some PleaseSignIn
         | Some u \<Rightarrow>
             (case data_of (own_bid_query be s (route_id p) u) of
                Some e \<Rightarrow> Some AlreadyPlacedBid
              | None \<Rightarrow> Some MustBeHigherThanBase))) \<and>
   (\<forall>row pr m. auction_query be s (route_id p) = Data (Some (row, Some pr)) \<and>
      m \<le> auc_start_price row \<longrightarrow>
      snd (handleBidSubmit be now ((fetchAuctionDetails be p s)\<lparr>bidAmount := m\<rparr>) s) = s \<and>
      error (fst (handleBidSubmit be now ((fetchAuctionDetails be p s)\<lparr>bidAmount := m\<rparr>) s)) =
        (case user p of
           None \<Rightarrow> Some PleaseSignIn
         | Some u \<Rightarrow>
             (case data_of (own_bid_query be s (route_id p) u) of
                Some e \<Rightarrow> Some AlreadyPlacedBid
              | None \<Rightarrow> Some MustBeHigherThanBase)))"
  by (auto simp add: handleBidSubmit_def handleBidSubmit_resume_def fetchAuctionDetails_def
      split: option.splits prod.splits)

theorem handleBidSubmit_low_amount_witness:
  "auction (a1_page (Some ''y'') Ended 80) = Some (a1 Ended) \<and>
   bidAmount (a1_page (Some ''y'') Ended 80) \<le> start_price (a1 Ended) \<and>
   handleBidSubmit open_backend 500 (a1_page (Some ''y'') Ended 80) (a1_store [bid_x])
     = ((a1_page (Some ''y'') Ended 80)\<lparr>error := Some MustBeHigherThanBase\<rparr>, a1_store [bid_x]) \<and>
   auction (a1_page (Some ''x'') Active 100) = Some (a1 Active) \<and>
   bidAmount (a1_page (Some ''x'') Active 100) \<le> start_price (a1 Active) \<and>
   error (fst (handleBidSubmit open_backend 500 (a1_page (Some ''x'') Active 100)
                 (a1_store [bid_x])))
     = Some AlreadyPlacedBid \<and>
   snd (handleBidSubmit open_backend 500 (a1_page (Some ''x'') Active 100) (a1_store [bid_x]))
     = a1_store [bid_x] \<and>
   error (fst (handleBidSubmit open_backend 500 (a1_page None Draft 100) (a1_store [bid_x])))
     = Some PleaseSignIn \<and>
   auction_query open_backend (a1_store [bid_x]) (route_id (mounted ''a1'' (Some ''y'')))
     = Data (Some (a1_row, Some p1_row)) \<and>
   auc_start_price a1_row = 100 \<and>
   handleBidSubmit open_backend 500
       ((fetchAuctionDetails open_backend (mounted ''a1'' (Some ''y'')) (a1_store [bid_x]))
          \<lparr>bidAmount := 100\<rparr>) (a1_store [bid_x])
     = ((fetchAuctionDetails open_backend (mounted ''a1'' (Some ''y'')) (a1_store [bid_x]))
          \<lparr>bidAmount := 100, error := Some MustBeHigherThanBase\<rparr>, a1_store [bid_x])"
  using handleBidSubmit_low_amount
      [of "a1_page (Some ''y'') Ended 80" open_backend 500 "a1_store [bid_x]"]
    handleBidSubmit_low_amount
      [of "a1_page (Some ''x'') Active 100" open_backend 500 "a1_store [bid_x]"]
    handleBidSubmit_low_amount
      [of "a1_page None Draft 100" open_backend 500 "a1_store [bid_x]"]
    handleBidSubmit_low_amount
      [of "mounted ''a1'' (Some ''y'')" open_backend 500 "a1_store [bid_x]"]
  by (simp add: op_defs fetchAuctionDetails_def auction_query_def join_product_def example_defs)

text \<open>
  Claim C6 as stated fails: an amount equal to the base price, submitted by a bidder
  whose earlier bid is in the store, is answered with "already placed", and submitted
  without a signed-in user with "please sign in". And on the page that still holds
  \<open>a0\<close> (base price 10, running at 300) after its route has changed to \<open>a1\<close> (stored
  base price 100), the form is shown and a bid of 50 is stored for \<open>a1\<close>.
\<close>

theorem handleBidSubmit_low_amount_counterexample:
  "bidAmount (a1_page (Some ''x'') Active 100) \<le> start_price (a1 Active) \<and>
   error (fst (handleBidSubmit open_backend 500 (a1_page (Some ''x'') Active 100)
                 (a1_store [bid_x])))
     = Some AlreadyPlacedBid \<and>
   error (fst (handleBidSubmit open_backend 500 (a1_page None Active 100)
                 (a1_store [bid_x])))
     = Some PleaseSignIn \<and>
   bidFormShown ((stale_page (Some ''z''))\<lparr>bidAmount := 50\<rparr>) 300 \<and>
   auc_id a1_row = route_id ((stale_page (Some ''z''))\<lparr>bidAmount := 50\<rparr>) \<and>
   auc_start_price a1_row = 100 \<and>
   handleBidSubmit open_backend 300 ((stale_page (Some ''z''))\<lparr>bidAmount := 50\<rparr>)
       (a1_store [])
     = ((stale_page (Some ''z''))
          \<lparr>bidAmount := 50, hasUserBid := True, userBidAmount := Some 50,
           showSuccessToast := True, error := None\<rparr>,
        a1_store [\<lparr>auction_id = ''a1'', bidder_id = ''z'', amount = 50, created_at = 300\<rparr>])"
  by (simp add: op_defs bidFormShown_def example_defs)

section \<open>One bid per bidder and auction\<close>

text \<open>
  A lookup that finds nothing, on a table with one bid per pair that answers, means that
  the pair has no row; the handler changes the table only by appending the new bid, and
  only after the store accepted it.
\<close>

lemma filter_key_le_one:
  "distinct (map f xs) \<Longrightarrow> length (filter (\<lambda>x. f x = k) xs) \<le> Suc 0"
  by (induction xs) (auto simp: filter_empty_conv image_iff)

lemma own_rows_is_key:
  "filter (\<lambda>b. auction_id b = i \<and> bidder_id b = u) bs = filter (\<lambda>b. bid_key b = (i, u)) bs"
  by (simp add: bid_key_def)

lemma lookup_none_no_row:
  assumes "one_bid_per_pair (bids s)" "read_failure be = None"
    "data_of (own_bid_query be s i u) = None"
  shows "(i, u) \<notin> set (map bid_key (bids s))"
proof -
  let ?rows = "filter (\<lambda>b. bid_key b = (i, u)) (bids s)"
  have "length ?rows \<le> Suc 0"
    using assms(1) unfolding one_bid_per_pair_def by (rule filter_key_le_one)
  moreover have "data_of (maybeSingle be (map amount ?rows)) = None"
    using assms(3) by (simp only: own_bid_query_def own_rows_is_key)
  ultimately have "?rows = []"
    using assms(2) by (cases ?rows) (auto split: list.splits)
  then show ?thesis
    by (auto simp: filter_empty_conv)
qed

lemma handleBidSubmit_resume_bids:
  "bids (snd (handleBidSubmit_resume be now u r p s)) = bids s \<or>
   (bids (snd (handleBidSubmit_resume be now u r p s)) = bids s @ [new_bid p u now] \<and>
    data_of r = None \<and> insert_verdict be (bids s) (new_bid p u now) = None)"
  by (auto simp: handleBidSubmit_resume_def split: option.splits prod.splits)

lemma bid_key_new_bid: "bid_key (new_bid p u now) = (route_id p, u)"
  by (simp add: bid_key_def new_bid_def)

lemma handleBidSubmit_one_bid_per_pair:
  assumes "one_bid_per_pair (bids s)" "read_failure be = None"
  shows "one_bid_per_pair (bids (snd (handleBidSubmit be now p s)))"
proof (cases "user p")
  case None
  then show ?thesis using assms(1) by (simp add: handleBidSubmit_def)
next
  case (Some u)
  let ?r = "own_bid_query be s (route_id p) u"
  from handleBidSubmit_resume_bids [of be now u ?r p s]
  show ?thesis
  proof
    assume "bids (snd (handleBidSubmit_resume be now u ?r p s)) = bids s"
    then show ?thesis using assms(1) Some by (simp add: handleBidSubmit_def)
  next
    assume a: "bids (snd (handleBidSubmit_resume be now u ?r p s)) = bids s @ [new_bid p u now] \<and>
      data_of ?r = None \<and> insert_verdict be (bids s) (new_bid p u now) = None"
    then have "(route_id p, u) \<notin> set (map bid_key (bids s))"
      using lookup_none_no_row [OF assms] by blast
    then show ?thesis
      using a assms(1) Some
      by (simp add: handleBidSubmit_def one_bid_per_pair_def bid_key_new_bid)
  qed
qed

lemma resume_one_bid_per_pair:
  assumes "rejects_duplicates be" "one_bid_per_pair (bids s)"
  shows "one_bid_per_pair (bids (snd (handleBidSubmit_resume be now u r p s)))"
  using handleBidSubmit_resume_bids [of be now u r p s] assms
  by (auto simp: rejects_duplicates_def one_bid_per_pair_def)

lemma step_one_bid_per_pair:
  assumes "rejects_duplicates be" "one_bid_per_pair (bids (fst c))"
  shows "one_bid_per_pair (bids (fst (step be e c)))"
proof (cases c)
  case (Pair s ss)
  show ?thesis
  proof (cases e)
    case (Lookup k)
    then show ?thesis using assms(2) Pair
      by (auto simp: Let_def split: option.splits)
  next
    case (Resume k now)
    then show ?thesis
      using assms(2) Pair resume_one_bid_per_pair [OF assms(1), of s]
      by (auto split: option.splits prod.splits) (metis snd_conv)
  qed
qed

lemma run_one_bid_per_pair:
  "rejects_duplicates be \<Longrightarrow> one_bid_per_pair (bids (fst c)) \<Longrightarrow>
   one_bid_per_pair (bids (fst (run be es c)))"
proof (induction es arbitrary: c)
  case Nil
  then show ?case by simp
next
  case (Cons e es)
  have "one_bid_per_pair (bids (fst (step be e c)))"
    using Cons.prems by (rule step_one_bid_per_pair)
  then have "one_bid_per_pair (bids (fst (run be es (step be e c))))"
    using Cons.prems(1) by (intro Cons.IH)
  then show ?case by simp
qed

lemma run_back_to_back:
  "user p \<noteq> None \<Longrightarrow>
   run be [Lookup 0, Resume 0 now] (s, [\<lparr>page = p, pending = None\<rparr>])
     = (snd (handleBidSubmit be now p s),
        [\<lparr>page = fst (handleBidSubmit be now p s), pending = None\<rparr>])"
  by (auto simp: handleBidSubmit_def Let_def split: option.splits prod.splits)

text \<open>
  Claim C1, as the code has it: from a table with at most one bid per (auction, bidder)
  pair, a submission handled without interruption and with a lookup that the store
  answers leaves at most one bid per pair; and when the store itself refuses a second
  row for a pair, every interleaving of the lookups and inserts of any number of
  submissions leaves at most one bid per pair. The duplicate check of the handler is a
  read of its own, followed later by the write.
\<close>

theorem one_bid_per_pair_preserved:
  "one_bid_per_pair (bids s) \<Longrightarrow>
   (read_failure be = None \<longrightarrow> one_bid_per_pair (bids (snd (handleBidSubmit be now p s)))) \<and>
   (rejects_duplicates be \<longrightarrow> one_bid_per_pair (bids (fst (run be es (s, ss)))))"
  using handleBidSubmit_one_bid_per_pair [of s be now p] run_one_bid_per_pair [of be "(s, ss)" es]
  by simp

lemma rejects_duplicates_unique_backend: "rejects_duplicates unique_backend"
  by (simp add: rejects_duplicates_def unique_backend_def)

text \<open>
  On a store that refuses duplicates: a second submission of \<open>y\<close> stores nothing, and of
  two interleaved submissions of \<open>x\<close> only the first is stored.
\<close>

theorem one_bid_per_pair_preserved_witness:
  "one_bid_per_pair (bids (a1_store [bid_y])) \<and> read_failure unique_backend = None \<and>
   rejects_duplicates unique_backend \<and>
   bids (snd (handleBidSubmit unique_backend 500 (a1_page (Some ''y'') Active 300) (a1_store [bid_y])))
     = [bid_y] \<and>
   bids (fst (run unique_backend [Lookup 0, Lookup 1, Resume 0 500, Resume 1 501]
     (a1_store [bid_y],
      [\<lparr>page = a1_page (Some ''x'') Active 150, pending = None\<rparr>,
       \<lparr>page = a1_page (Some ''x'') Active 150, pending = None\<rparr>])))
     = [bid_y, \<lparr>auction_id = ''a1'', bidder_id = ''x'', amount = 150, created_at = 500\<rparr>] \<and>
   one_bid_per_pair (bids (fst (run unique_backend [Lookup 0, Lookup 1, Resume 0 500, Resume 1 501]
     (a1_store [bid_y],
      [\<lparr>page = a1_page (Some ''x'') Active 150, pending = None\<rparr>,
       \<lparr>page = a1_page (Some ''x'') Active 150, pending = None\<rparr>]))))"
  using one_bid_per_pair_preserved [of "a1_store [bid_y]" unique_backend 500 "a1_page (Some ''y'') Active 300"
      "[Lookup 0, Lookup 1, Resume 0 500, Resume 1 501]"
      "[\<lparr>page = a1_page (Some ''x'') Active 150, pending = None\<rparr>,
       \<lparr>page = a1_page (Some ''x'') Active 150, pending = None\<rparr>]"]
    rejects_duplicates_unique_backend
  by (simp add: op_defs example_defs one_bid_per_pair_def Let_def)

text \<open>
  Claim C1 as stated (one bid per pair under concurrent submissions, by an atomic check
  and insert) fails on the handler's own check: two submissions of the same bidder whose
  lookups are both served before either insert both pass the check, and on a store that
  accepts the rows both bids are stored.
\<close>

theorem one_bid_per_pair_interleaved_counterexample:
  "one_bid_per_pair (bids (a1_store [])) \<and>
   bids (fst (run open_backend [Lookup 0, Lookup 1, Resume 0 500, Resume 1 501]
     (a1_store [],
      [\<lparr>page = a1_page (Some ''x'') Active 150, pending = None\<rparr>,
       \<lparr>page = a1_page (Some ''x'') Active 150, pending = None\<rparr>])))
     = [\<lparr>auction_id = ''a1'', bidder_id = ''x'', amount = 150, created_at = 500\<rparr>,
        \<lparr>auction_id = ''a1'', bidder_id = ''x'', amount = 150, created_at = 501\<rparr>] \<and>
   \<not> one_bid_per_pair (bids (fst (run open_backend [Lookup 0, Lookup 1, Resume 0 500, Resume 1 501]
     (a1_store [],
      [\<lparr>page = a1_page (Some ''x'') Active 150, pending = None\<rparr>,
       \<lparr>page = a1_page (Some ''x'') Active 150, pending = None\<rparr>]))))"
  by (simp add: op_defs example_defs one_bid_per_pair_def Let_def)

section \<open>Confidentiality of bids\<close>

text \<open>
  What an actor obtains from the own-bid lookup, from the auction details and from the
  listing of active auctions does not depend on the bids of other bidders: on two stores
  that agree for the actor the three operations give the same result. The same holds
  for what the page-load effect fetches while the clock check of the render it belongs
  to is false.
\<close>

lemma own_rows_split:
  "filter (\<lambda>b. auction_id b = i \<and> bidder_id b = u) bs
     = filter (\<lambda>b. auction_id b = i) (filter (\<lambda>b. Some (bidder_id b) = Some u) bs)"
  by (simp add: conj_commute)

lemma own_bid_query_agree:
  "agree_for (Some u) s s' \<Longrightarrow> own_bid_query be s i u = own_bid_query be s' i u"
  unfolding own_bid_query_def own_rows_split agree_for_def by simp

lemma checkUserBid_agree:
  "agree_for (user p) s s' \<Longrightarrow> checkUserBid be p s = checkUserBid be p s'"
  by (cases "user p") (simp_all add: checkUserBid_def own_bid_query_agree)

lemma join_product_agree: "agree_for u s s' \<Longrightarrow> join_product s = join_product s'"
  by (rule ext) (simp add: join_product_def agree_for_def)

lemma fetchAuctionDetails_agree:
  "agree_for u s s' \<Longrightarrow> fetchAuctionDetails be p s = fetchAuctionDetails be p s'"
  using join_product_agree [of u s s']
  by (simp add: fetchAuctionDetails_def auction_query_def agree_for_def)

lemma fetchAuctions_agree:
  "agree_for u s s' \<Longrightarrow> fetchAuctions be l s = fetchAuctions be l s'"
  using join_product_agree [of u s s']
  by (simp add: fetchAuctions_def agree_for_def)

lemma user_fetchAuctionDetails: "user (fetchAuctionDetails be p s) = user p"
  by (simp add: fetchAuctionDetails_def split: response.splits option.splits prod.splits)

lemma useEffect_id_agree:
  assumes "agree_for (user p) s s'" "\<not> isEnded p now"
  shows "useEffect_id be now p s = useEffect_id be now p s'"
proof -
  have d: "fetchAuctionDetails be p s = fetchAuctionDetails be p s'"
    using assms(1) by (rule fetchAuctionDetails_agree)
  have "agree_for (user (fetchAuctionDetails be p s')) s s'"
    using assms(1) by (simp add: user_fetchAuctionDetails)
  then have "checkUserBid be (fetchAuctionDetails be p s') s
      = checkUserBid be (fetchAuctionDetails be p s') s'"
    by (rule checkUserBid_agree)
  then show ?thesis
    using assms(2) d by (simp add: useEffect_id_def)
qed

text \<open>
  Claim C2 asks that, while an auction is running, no read gives an actor the amount of
  another bidder's bid or the current maximum. The page-load effect breaks this after a
  change of route. The page of user \<open>z\<close> showed auction \<open>a0\<close>, which ended at 400, and is
  routed at instant 500 to \<open>a1\<close>, which runs until 1000. The effect evaluates the clock
  check on the auction the state still holds, \<open>a0\<close>, and therefore issues the winner
  lookup for \<open>a1\<close>: the page receives the highest bid on \<open>a1\<close> and the name of its bidder
  while \<open>a1\<close> is running (the clock check on the page after the load is false), and what
  it receives differs between two stores that agree for \<open>z\<close>.
\<close>

theorem useEffect_id_route_change_shows_highest_bid:
  "isEnded (stale_page (Some ''z'')) 500 \<and>
   agree_for (Some ''z'') (a1_store [bid_x, bid_y]) (a1_store [bid_x]) \<and>
   auction (useEffect_id open_backend 500 (stale_page (Some ''z'')) (a1_store [bid_x, bid_y]))
     = Some (a1 Active) \<and>
   \<not> isEnded (useEffect_id open_backend 500 (stale_page (Some ''z'')) (a1_store [bid_x, bid_y])) 500 \<and>
   winner (useEffect_id open_backend 500 (stale_page (Some ''z'')) (a1_store [bid_x, bid_y]))
     = Some \<lparr>user_name = ''Y'', bid_amount = 200\<rparr> \<and>
   winner (useEffect_id open_backend 500 (stale_page (Some ''z'')) (a1_store [bid_x]))
     = Some \<lparr>user_name = ''X'', bid_amount = 150\<rparr>"
  by (simp add: useEffect_id_def isEnded_def agree_for_def fetchAuctionDetails_def
      auction_query_def join_product_def checkUserBid_def own_bid_query_def winner_defs
      stale_page_def example_defs)

section \<open>Winner lookup: properties\<close>

text \<open>
  Claim C7, as the code has it: when the auction of the route has no bid and the store
  answers, the winner lookup goes through its error branch, \<^verbatim>\<open>single()\<close> reporting the
  empty result as an error that is thrown, caught and written to the console. It writes
  nothing else: the winner held by the page stays what it was (none on a page that held
  none, the earlier one on a page that held one), and so does the message of the page.
\<close>

theorem fetchWinnerDetails_no_bids:
  "route_id p \<noteq> [] \<Longrightarrow> read_failure be = None \<Longrightarrow>
   filter (\<lambda>b. auction_id b = route_id p) (bids s) = [] \<Longrightarrow>
   fetchWinnerDetails be p s
     = p\<lparr>console := console p @ [ErrorFetchingWinnerDetails PGRST116]\<rparr> \<and>
   winner (fetchWinnerDetails be p s) = winner p \<and>
   error (fetchWinnerDetails be p s) = error p"
  by (simp add: fetchWinnerDetails_def winner_query_def order_amount_desc_def)

text \<open>
  An auction without bids, looked up from a fresh page and from a page that holds a
  winner from an earlier lookup.
\<close>

theorem fetchWinnerDetails_no_bids_witness:
  "route_id (mounted ''a2'' None) \<noteq> [] \<and> read_failure open_backend = None \<and>
   filter (\<lambda>b. auction_id b = route_id (mounted ''a2'' None)) (bids (a1_store [bid_x, bid_y]))
     = [] \<and>
   winner (fetchWinnerDetails open_backend (mounted ''a2'' None) (a1_store [bid_x, bid_y]))
     = None \<and>
   error (fetchWinnerDetails open_backend (mounted ''a2'' None) (a1_store [bid_x, bid_y]))
     = None \<and>
   console (fetchWinnerDetails open_backend (mounted ''a2'' None) (a1_store [bid_x, bid_y]))
     = [ErrorFetchingWinnerDetails PGRST116] \<and>
   route_id ((mounted ''a2'' None)\<lparr>winner := Some y_shown\<rparr>) \<noteq> [] \<and>
   filter (\<lambda>b. auction_id b = route_id ((mounted ''a2'' None)\<lparr>winner := Some y_shown\<rparr>))
     (bids (a1_store [bid_x, bid_y])) = [] \<and>
   winner (fetchWinnerDetails open_backend ((mounted ''a2'' None)\<lparr>winner := Some y_shown\<rparr>)
             (a1_store [bid_x, bid_y]))
     = Some y_shown"
  using fetchWinnerDetails_no_bids
      [of "mounted ''a2'' None" open_backend "a1_store [bid_x, bid_y]"]
    fetchWinnerDetails_no_bids
      [of "(mounted ''a2'' None)\<lparr>winner := Some y_shown\<rparr>" open_backend
        "a1_store [bid_x, bid_y]"]
  by (simp add: example_defs)

text \<open>
  Claim C7 as stated (no winner as a regular outcome, not an error) fails: on the
  example auction, over at 2000 and without bids, the lookup ends in an error entry on
  the console, and a page that held a winner still holds it.
\<close>

theorem fetchWinnerDetails_no_bids_counterexample:
  "isEnded (a1_page (Some ''x'') Active 0) 2000 \<and>
   console (fetchWinnerDetails open_backend (a1_page (Some ''x'') Active 0) (a1_store []))
     = [ErrorFetchingWinnerDetails PGRST116] \<and>
   winner (fetchWinnerDetails open_backend
             ((a1_page (Some ''x'') Active 0)\<lparr>winner := Some y_shown\<rparr>) (a1_store []))
     = Some y_shown"
  by (simp add: winner_defs isEnded_def example_defs)

text \<open>
  The first row of the ordered result is a row of the highest amount; and for every row
  of the highest amount there is a store, differing only in the order of tied rows, that
  returns it first.
\<close>

lemma order_amount_desc_head:
  assumes "rows \<noteq> []"
  shows "\<exists>b rest. order_amount_desc be rows = b # rest \<and> b \<in> set rows \<and>
     (\<forall>c \<in> set rows. (- amount b, bid_tie_rank be b) \<le> (- amount c, bid_tie_rank be c))"
proof -
  let ?k = "\<lambda>b. (- amount b, bid_tie_rank be b)"
  let ?xs = "sort_key ?k rows"
  have "?xs \<noteq> []"
    using assms by (metis length_sort length_0_conv)
  then obtain b rest where xs: "?xs = b # rest"
    by (cases ?xs) auto
  have "sorted (map ?k ?xs)"
    by (rule sorted_sort_key)
  then have "\<forall>c \<in> set ?xs. ?k b \<le> ?k c"
    unfolding xs by auto
  then have le: "\<forall>c \<in> set rows. ?k b \<le> ?k c"
    by simp
  have "b \<in> set ?xs"
    unfolding xs by simp
  then have "b \<in> set rows"
    by simp
  then show ?thesis
    using xs le unfolding order_amount_desc_def by blast
qed

lemma order_amount_desc_top:
  assumes "rows \<noteq> []"
  shows "\<exists>b rest. order_amount_desc be rows = b # rest \<and> b \<in> set (top_bids rows)"
proof -
  from order_amount_desc_head [OF assms, of be] obtain b rest where
    h: "order_amount_desc be rows = b # rest" "b \<in> set rows"
    and le: "\<forall>c \<in> set rows. (- amount b, bid_tie_rank be b) \<le> (- amount c, bid_tie_rank be c)"
    by blast
  have "\<forall>c \<in> set rows. amount c \<le> amount b"
  proof
    fix c assume "c \<in> set rows"
    with le have "(- amount b, bid_tie_rank be b) \<le> (- amount c, bid_tie_rank be c)"
      by blast
    then show "amount c \<le> amount b"
      by (auto simp: less_eq_prod_def)
  qed
  then have "b \<in> set (top_bids rows)"
    using h(2) by (simp add: top_bids_def)
  then show ?thesis
    using h(1) by blast
qed

lemma order_amount_desc_any_top:
  assumes "b \<in> set (top_bids rows)"
  shows "\<exists>rest. order_amount_desc (be\<lparr>bid_tie_rank := (\<lambda>c. if c = b then 0 else 1)\<rparr>) rows = b # rest"
proof -
  let ?be = "be\<lparr>bid_tie_rank := (\<lambda>c. if c = b then 0 else 1)\<rparr>"
  have b: "b \<in> set rows" and top: "\<forall>c \<in> set rows. amount c \<le> amount b"
    using assms by (auto simp: top_bids_def)
  then have "rows \<noteq> []"
    by auto
  from order_amount_desc_head [OF this, of ?be] obtain h rest where
    h: "order_amount_desc ?be rows = h # rest" "h \<in> set rows"
    and le: "\<forall>c \<in> set rows. (- amount h, bid_tie_rank ?be h) \<le> (- amount c, bid_tie_rank ?be c)"
    by blast
  from le b have "(- amount h, bid_tie_rank ?be h) \<le> (- amount b, bid_tie_rank ?be b)"
    by blast
  moreover have "amount h \<le> amount b"
    using top h(2) by blast
  ultimately have "h = b"
    by (auto simp: less_eq_prod_def split: if_splits)
  then show ?thesis
    using h(1) by blast
qed

lemma fetchWinnerDetails_head:
  assumes "route_id p \<noteq> []" "read_failure be = None"
    "order_amount_desc be (filter (\<lambda>b. auction_id b = route_id p) (bids s)) = b # rest"
  shows "fetchWinnerDetails be p s =
     (case find (\<lambda>r. profile_id r = bidder_id b) (profiles s) of
        None \<Rightarrow> p
      | Some r \<Rightarrow> p\<lparr>winner := Some \<lparr>user_name = full_name r, bid_amount = amount b\<rparr>\<rparr>)"
  using assms
  by (simp add: fetchWinnerDetails_def winner_query_def join_bidder_def split: option.splits)

text \<open>
  Claim C4, as the code has it: when the auction of the route has bids and the store
  answers, the winner lookup selects a bid \<open>b\<close> of the highest amount; it sets the winner
  of the page to the name and amount of \<open>b\<close> when the bidder of \<open>b\<close> has a profile, and
  leaves the page as it was when not. Which of several bids of the highest amount is
  selected is the store's choice: the creation time plays no part, and for each of them
  there is a store that selects it.
\<close>

theorem fetchWinnerDetails_highest:
  assumes "route_id p \<noteq> []" and "read_failure be = None"
    and "filter (\<lambda>b. auction_id b = route_id p) (bids s) \<noteq> []"
  shows
    "(\<exists>b \<in> set (top_bids (filter (\<lambda>b. auction_id b = route_id p) (bids s))).
        fetchWinnerDetails be p s =
          (case find (\<lambda>r. profile_id r = bidder_id b) (profiles s) of
             None \<Rightarrow> p
           | Some r \<Rightarrow> p\<lparr>winner := Some \<lparr>user_name = full_name r, bid_amount = amount b\<rparr>\<rparr>)) \<and>
     (\<forall>b \<in> set (top_bids (filter (\<lambda>b. auction_id b = route_id p) (bids s))).
        \<exists>be'. read_failure be' = None \<and>
          fetchWinnerDetails be' p s =
            (case find (\<lambda>r. profile_id r = bidder_id b) (profiles s) of
               None \<Rightarrow> p
             | Some r \<Rightarrow> p\<lparr>winner := Some \<lparr>user_name = full_name r, bid_amount = amount b\<rparr>\<rparr>))"
proof (intro conjI ballI)
  from order_amount_desc_top [OF assms(3), of be] obtain b rest where
    h: "order_amount_desc be (filter (\<lambda>b. auction_id b = route_id p) (bids s)) = b # rest"
    and t: "b \<in> set (top_bids (filter (\<lambda>b. auction_id b = route_id p) (bids s)))"
    by blast
  from fetchWinnerDetails_head [OF assms(1,2) h] t
  show "\<exists>b \<in> set (top_bids (filter (\<lambda>b. auction_id b = route_id p) (bids s))).
        fetchWinnerDetails be p s =
          (case find (\<lambda>r. profile_id r = bidder_id b) (profiles s) of
             None \<Rightarrow> p
           | Some r \<Rightarrow> p\<lparr>winner := Some \<lparr>user_name = full_name r, bid_amount = amount b\<rparr>\<rparr>)"
    by blast
next
  fix b assume "b \<in> set (top_bids (filter (\<lambda>b. auction_id b = route_id p) (bids s)))"
  then obtain rest where
    h: "order_amount_desc (be\<lparr>bid_tie_rank := (\<lambda>c. if c = b then 0 else 1)\<rparr>)
          (filter (\<lambda>b. auction_id b = route_id p) (bids s)) = b # rest"
    using order_amount_desc_any_top by blast
  have r: "read_failure (be\<lparr>bid_tie_rank := (\<lambda>c. if c = b then 0 else 1)\<rparr>) = None"
    using assms(2) by simp
  from fetchWinnerDetails_head [OF assms(1) r h] r
  show "\<exists>be'. read_failure be' = None \<and>
          fetchWinnerDetails be' p s =
            (case find (\<lambda>r. profile_id r = bidder_id b) (profiles s) of
               None \<Rightarrow> p
             | Some r \<Rightarrow> p\<lparr>winner := Some \<lparr>user_name = full_name r, bid_amount = amount b\<rparr>\<rparr>)"
    by blast
qed


text \<open>
  The scenario of the specification, bids of \<open>x\<close>, \<open>y\<close> and \<open>z\<close>: the top bids are those of
  \<open>y\<close> and \<open>z\<close>; the winner is \<open>y\<close> with 200 on the store that keeps the table order and
  \<open>z\<close> with 200 on the store that returns the rows of \<open>z\<close> first. With the bids of \<open>x\<close>
  and \<open>w\<close>, the top bidder \<open>w\<close> having no profile, the page is left as it was.
\<close>

theorem fetchWinnerDetails_highest_witness:
  "route_id (a1_page None Active 0) \<noteq> [] \<and> read_failure open_backend = None \<and>
   filter (\<lambda>b. auction_id b = route_id (a1_page None Active 0))
     (bids (a1_store [bid_x, bid_y, bid_z])) \<noteq> [] \<and>
   map bidder_id
     (top_bids (filter (\<lambda>b. auction_id b = route_id (a1_page None Active 0))
        (bids (a1_store [bid_x, bid_y, bid_z])))) = [''y'', ''z''] \<and>
   (\<exists>b \<in> set (top_bids (filter (\<lambda>b. auction_id b = route_id (a1_page None Active 0))
        (bids (a1_store [bid_x, bid_y, bid_z])))).
      fetchWinnerDetails open_backend (a1_page None Active 0) (a1_store [bid_x, bid_y, bid_z]) =
        (case find (\<lambda>r. profile_id r = bidder_id b) (profiles (a1_store [bid_x, bid_y, bid_z])) of
           None \<Rightarrow> a1_page None Active 0
         | Some r \<Rightarrow>
             (a1_page None Active 0)
               \<lparr>winner := Some \<lparr>user_name = full_name r, bid_amount = amount b\<rparr>\<rparr>)) \<and>
   winner (fetchWinnerDetails open_backend (a1_page None Active 0)
             (a1_store [bid_x, bid_y, bid_z]))
     = Some \<lparr>user_name = ''Y'', bid_amount = 200\<rparr> \<and>
   winner (fetchWinnerDetails z_first_backend (a1_page None Active 0)
             (a1_store [bid_x, bid_y, bid_z]))
     = Some \<lparr>user_name = ''Z'', bid_amount = 200\<rparr> \<and>
   fetchWinnerDetails open_backend (a1_page None Active 0) (a1_store [bid_x, bid_w])
     = a1_page None Active 0"
proof -
  have 1: "route_id (a1_page None Active 0) \<noteq> []" by (simp add: example_defs)
  have 2: "read_failure open_backend = None" by (simp add: example_defs)
  have 3: "filter (\<lambda>b. auction_id b = route_id (a1_page None Active 0))
      (bids (a1_store [bid_x, bid_y, bid_z])) \<noteq> []"
    by (simp add: example_defs)
  have 4: "map bidder_id
     (top_bids (filter (\<lambda>b. auction_id b = route_id (a1_page None Active 0))
        (bids (a1_store [bid_x, bid_y, bid_z])))) = [''y'', ''z'']"
    by (simp add: top_bids_def example_defs)
  note 5 = fetchWinnerDetails_highest [OF 1 2 3, THEN conjunct1]
  have 6: "winner (fetchWinnerDetails open_backend (a1_page None Active 0)
             (a1_store [bid_x, bid_y, bid_z]))
     = Some \<lparr>user_name = ''Y'', bid_amount = 200\<rparr>"
    by (simp add: winner_defs example_defs)
  have 7: "winner (fetchWinnerDetails z_first_backend (a1_page None Active 0)
             (a1_store [bid_x, bid_y, bid_z]))
     = Some \<lparr>user_name = ''Z'', bid_amount = 200\<rparr>"
    by (simp add: winner_defs example_defs)
  have 8: "fetchWinnerDetails open_backend (a1_page None Active 0) (a1_store [bid_x, bid_w])
     = a1_page None Active 0"
    by (simp add: winner_defs example_defs)
  show ?thesis by (intro conjI) (rule 1 2 3 4 5 6 7 8)+
qed

text \<open>In the scenario, on every store that answers, the winner is \<open>y\<close> or \<open>z\<close> with 200.\<close>

lemma scenario_c_any_store:
  assumes "read_failure be = None"
  shows "winner (fetchWinnerDetails be (a1_page None Active 0) (a1_store [bid_x, bid_y, bid_z]))
       = Some \<lparr>user_name = ''Y'', bid_amount = 200\<rparr> \<or>
     winner (fetchWinnerDetails be (a1_page None Active 0) (a1_store [bid_x, bid_y, bid_z]))
       = Some \<lparr>user_name = ''Z'', bid_amount = 200\<rparr>"
proof -
  have rows: "filter (\<lambda>b. auction_id b = route_id (a1_page None Active 0))
      (bids (a1_store [bid_x, bid_y, bid_z])) = [bid_x, bid_y, bid_z]"
    by (simp add: example_defs)
  have "[bid_x, bid_y, bid_z] \<noteq> []" by simp
  from order_amount_desc_top [OF this, of be] obtain b rest where
    h: "order_amount_desc be [bid_x, bid_y, bid_z] = b # rest"
    and t: "b \<in> set (top_bids [bid_x, bid_y, bid_z])"
    by blast
  have "top_bids [bid_x, bid_y, bid_z] = [bid_y, bid_z]"
    by (simp add: top_bids_def example_defs)
  with t have b: "b = bid_y \<or> b = bid_z" by simp
  have 1: "route_id (a1_page None Active 0) \<noteq> []" by (simp add: example_defs)
  from fetchWinnerDetails_head [OF 1 assms, of "a1_store [bid_x, bid_y, bid_z]" b rest] h rows
  have "fetchWinnerDetails be (a1_page None Active 0) (a1_store [bid_x, bid_y, bid_z]) =
     (case find (\<lambda>r. profile_id r = bidder_id b) (profiles (a1_store [bid_x, bid_y, bid_z])) of
        None \<Rightarrow> a1_page None Active 0
      | Some r \<Rightarrow> (a1_page None Active 0)\<lparr>winner := Some \<lparr>user_name = full_name r, bid_amount = amount b\<rparr>\<rparr>)"
    by simp
  with b show ?thesis
    by (auto simp: example_defs)
qed

text \<open>
  Claim C4 as stated (the earliest bid wins a tie) fails: \<open>y\<close> bid 200 at 2 and \<open>z\<close> bid
  200 at 3, and the winner shown is \<open>z\<close>, on a store that returns the rows of \<open>z\<close> first
  among tied rows, and on a store that keeps the table order when the row of \<open>z\<close> was
  stored first (the creation time is the clock of the bidder's browser).
\<close>

theorem fetchWinnerDetails_tie_counterexample:
  "created_at bid_y < created_at bid_z \<and> amount bid_y = amount bid_z \<and>
   winner (fetchWinnerDetails z_first_backend (a1_page None Active 0)
             (a1_store [bid_x, bid_y, bid_z]))
     = Some \<lparr>user_name = ''Z'', bid_amount = 200\<rparr> \<and>
   winner (fetchWinnerDetails open_backend (a1_page None Active 0)
             (a1_store [bid_x, bid_z, bid_y]))
     = Some \<lparr>user_name = ''Z'', bid_amount = 200\<rparr>"
  by (simp add: winner_defs example_defs)

text \<open>
  Two lookups on the same set of bids, whatever the order of the table and of tied rows:
  both fail for want of a row, or both return a top bid.
\<close>

lemma winner_query_top:
  assumes "read_failure be = None"
  shows "(filter (\<lambda>b. auction_id b = i) (bids s) = [] \<and> winner_query be s i = Failure PGRST116) \<or>
    (\<exists>b \<in> set (top_bids (filter (\<lambda>b. auction_id b = i) (bids s))).
       winner_query be s i = Data (Some (join_bidder s b)))"
proof (cases "filter (\<lambda>b. auction_id b = i) (bids s) = []")
  case True
  then show ?thesis using assms by (simp add: winner_query_def order_amount_desc_def)
next
  case False
  from order_amount_desc_top [OF False, of be] obtain b rest where
    h: "order_amount_desc be (filter (\<lambda>b. auction_id b = i) (bids s)) = b # rest"
    and t: "b \<in> set (top_bids (filter (\<lambda>b. auction_id b = i) (bids s)))"
    by blast
  have "winner_query be s i = Data (Some (join_bidder s b))"
    using assms h by (simp add: winner_query_def)
  then show ?thesis using t by blast
qed

lemma top_bids_same_amount:
  "b \<in> set (top_bids rows) \<Longrightarrow> c \<in> set (top_bids rows) \<Longrightarrow> amount b = amount c"
  by (auto simp: top_bids_def intro: antisym)

lemma top_bids_mset:
  assumes "mset rows = mset rows'"
  shows "set (top_bids rows) = set (top_bids rows')"
proof -
  have "set rows = set rows'" using assms by (rule mset_eq_setD)
  then show ?thesis by (auto simp: top_bids_def)
qed

lemma winner_query_two_runs:
  assumes "mset (bids s) = mset (bids s')" "read_failure be = None" "read_failure be' = None"
  shows "(filter (\<lambda>b. auction_id b = i) (bids s) = [] \<and>
      winner_query be s i = Failure PGRST116 \<and> winner_query be' s' i = Failure PGRST116) \<or>
    (\<exists>b \<in> set (top_bids (filter (\<lambda>b. auction_id b = i) (bids s))).
     \<exists>c \<in> set (top_bids (filter (\<lambda>b. auction_id b = i) (bids s))).
       amount b = amount c \<and>
       winner_query be s i = Data (Some (join_bidder s b)) \<and>
       winner_query be' s' i = Data (Some (join_bidder s' c)))"
proof -
  define rows where "rows = filter (\<lambda>b. auction_id b = i) (bids s)"
  define rows' where "rows' = filter (\<lambda>b. auction_id b = i) (bids s')"
  have m: "mset rows = mset rows'"
    unfolding rows_def rows'_def by (simp only: mset_filter assms(1))
  then have se: "set rows = set rows'"
    by (rule mset_eq_setD)
  have e: "rows = [] \<longleftrightarrow> rows' = []"
    using se by (simp only: set_empty [symmetric])
  have t: "set (top_bids rows) = set (top_bids rows')"
    using m by (rule top_bids_mset)
  from winner_query_top [OF assms(2), of i s]
  have "(rows = [] \<and> winner_query be s i = Failure PGRST116) \<or>
    (\<exists>b \<in> set (top_bids rows). winner_query be s i = Data (Some (join_bidder s b)))"
    unfolding rows_def .
  then show ?thesis
  proof
    assume a: "rows = [] \<and> winner_query be s i = Failure PGRST116"
    then have "rows' = []" using e by simp
    then have "winner_query be' s' i = Failure PGRST116"
      using assms(3) unfolding rows'_def by (simp add: winner_query_def order_amount_desc_def)
    then show ?thesis using a unfolding rows_def by blast
  next
    assume "\<exists>b \<in> set (top_bids rows). winner_query be s i = Data (Some (join_bidder s b))"
    then obtain b where b: "b \<in> set (top_bids rows)"
      and qb: "winner_query be s i = Data (Some (join_bidder s b))"
      by blast
    have "b \<in> set rows"
      using b by (simp add: top_bids_def)
    then have "rows' \<noteq> []"
      using se by auto
    with winner_query_top [OF assms(3), of i s']
    have "\<exists>c \<in> set (top_bids rows'). winner_query be' s' i = Data (Some (join_bidder s' c))"
      unfolding rows'_def by simp
    then obtain c where c: "c \<in> set (top_bids rows')"
      and qc: "winner_query be' s' i = Data (Some (join_bidder s' c))"
      by blast
    have c': "c \<in> set (top_bids rows)"
      using c t by simp
    have "amount b = amount c"
      using b c' by (rule top_bids_same_amount)
    then show ?thesis
      using b c' qb qc unfolding rows_def by blast
  qed
qed

text \<open>
  Claim C8, as the code has it: take two invocations of the winner lookup on the same
  set of bids and the same profiles, the table and the tied rows in whatever order, the
  store answering both times or failing both times with the same error. When all bids of
  the highest amount
  are of one bidder, the two leave the page in the same state (the same winner, or the
  page as it was). When every bidder of a bid of the highest amount has a profile, both
  set a winner, with the same amount.
\<close>

theorem fetchWinnerDetails_repeated:
  assumes "mset (bids s) = mset (bids s')" and "profiles s = profiles s'"
    and "read_failure be = read_failure be'"
  shows
    "((\<forall>b \<in> set (top_bids (filter (\<lambda>b. auction_id b = route_id p) (bids s))).
       \<forall>c \<in> set (top_bids (filter (\<lambda>b. auction_id b = route_id p) (bids s))).
         bidder_id b = bidder_id c)
      \<longrightarrow> fetchWinnerDetails be p s = fetchWinnerDetails be' p s') \<and>
     (route_id p \<noteq> [] \<and> read_failure be = None \<and>
      filter (\<lambda>b. auction_id b = route_id p) (bids s) \<noteq> [] \<and>
      (\<forall>b \<in> set (top_bids (filter (\<lambda>b. auction_id b = route_id p) (bids s))).
         find (\<lambda>r. profile_id r = bidder_id b) (profiles s) \<noteq> None)
      \<longrightarrow> (\<exists>w w'. winner (fetchWinnerDetails be p s) = Some w \<and>
            winner (fetchWinnerDetails be' p s') = Some w' \<and> bid_amount w = bid_amount w'))"
proof (cases "read_failure be")
  case (Some e)
  then have "winner_query be s (route_id p) = winner_query be' s' (route_id p)"
    using assms(3) by (simp add: winner_query_def)
  then show ?thesis
    using Some by (simp add: fetchWinnerDetails_def)
next
  case None
  then have None': "read_failure be' = None"
    using assms(3) by simp
  let ?top = "top_bids (filter (\<lambda>b. auction_id b = route_id p) (bids s))"
  from winner_query_two_runs [OF assms(1) None None', of "route_id p"]
  show ?thesis
  proof
    assume a: "filter (\<lambda>b. auction_id b = route_id p) (bids s) = [] \<and>
      winner_query be s (route_id p) = Failure PGRST116 \<and>
      winner_query be' s' (route_id p) = Failure PGRST116"
    then show ?thesis
      by (simp add: fetchWinnerDetails_def)
  next
    assume "\<exists>b \<in> set ?top. \<exists>c \<in> set ?top. amount b = amount c \<and>
       winner_query be s (route_id p) = Data (Some (join_bidder s b)) \<and>
       winner_query be' s' (route_id p) = Data (Some (join_bidder s' c))"
    then obtain b c where b: "b \<in> set ?top" and c: "c \<in> set ?top"
      and am: "amount b = amount c"
      and qb: "winner_query be s (route_id p) = Data (Some (join_bidder s b))"
      and qc: "winner_query be' s' (route_id p) = Data (Some (join_bidder s' c))"
      by blast
    have 1: "fetchWinnerDetails be p s = fetchWinnerDetails be' p s'"
      if "\<forall>b \<in> set ?top. \<forall>c \<in> set ?top. bidder_id b = bidder_id c"
    proof -
      have "bidder_id b = bidder_id c"
        using that b c by blast
      then have "join_bidder s b = join_bidder s' c"
        using am assms(2) by (simp add: join_bidder_def)
      then show ?thesis
        by (simp add: fetchWinnerDetails_def qb qc)
    qed
    have 2: "\<exists>w w'. winner (fetchWinnerDetails be p s) = Some w \<and>
            winner (fetchWinnerDetails be' p s') = Some w' \<and> bid_amount w = bid_amount w'"
      if r: "route_id p \<noteq> []"
        and pr: "\<forall>b \<in> set ?top. find (\<lambda>r. profile_id r = bidder_id b) (profiles s) \<noteq> None"
    proof -
      from pr b obtain rb where rb: "find (\<lambda>r. profile_id r = bidder_id b) (profiles s) = Some rb"
        by blast
      from pr c obtain rc where rc: "find (\<lambda>r. profile_id r = bidder_id c) (profiles s') = Some rc"
        using assms(2) by auto
      have "winner (fetchWinnerDetails be p s) = Some \<lparr>user_name = full_name rb, bid_amount = amount b\<rparr>"
        using r by (simp add: fetchWinnerDetails_def qb join_bidder_def rb)
      moreover have "winner (fetchWinnerDetails be' p s') = Some \<lparr>user_name = full_name rc, bid_amount = amount c\<rparr>"
        using r by (simp add: fetchWinnerDetails_def qc join_bidder_def rc)
      ultimately show ?thesis
        using am by simp
    qed
    show ?thesis
      using 1 2 by (intro conjI impI) blast+
  qed
qed


text \<open>
  Bids 150 and 200 in either table order, on two stores: the same page, with winner \<open>y\<close>
  at 200. The tied bids of \<open>y\<close> and \<open>z\<close> on the two stores: a winner at 200 both times.
\<close>

theorem fetchWinnerDetails_repeated_witness:
  "mset (bids (a1_store [bid_x, bid_y])) = mset (bids (a1_store [bid_y, bid_x])) \<and>
   profiles (a1_store [bid_x, bid_y]) = profiles (a1_store [bid_y, bid_x]) \<and>
   read_failure open_backend = read_failure z_first_backend \<and>
   map bidder_id
     (top_bids (filter (\<lambda>b. auction_id b = route_id (a1_page None Active 0))
        (bids (a1_store [bid_x, bid_y])))) = [''y''] \<and>
   fetchWinnerDetails open_backend (a1_page None Active 0) (a1_store [bid_x, bid_y])
     = fetchWinnerDetails z_first_backend (a1_page None Active 0) (a1_store [bid_y, bid_x]) \<and>
   winner (fetchWinnerDetails z_first_backend (a1_page None Active 0) (a1_store [bid_y, bid_x]))
     = Some \<lparr>user_name = ''Y'', bid_amount = 200\<rparr> \<and>
   (\<exists>w w'.
      winner (fetchWinnerDetails open_backend (a1_page None Active 0) (a1_store [bid_y, bid_z]))
        = Some w \<and>
      winner (fetchWinnerDetails z_first_backend (a1_page None Active 0) (a1_store [bid_y, bid_z]))
        = Some w' \<and>
      bid_amount w = bid_amount w')"
proof -
  have 1: "mset (bids (a1_store [bid_x, bid_y])) = mset (bids (a1_store [bid_y, bid_x]))"
    by (simp add: a1_store_def)
  have 2: "profiles (a1_store [bid_x, bid_y]) = profiles (a1_store [bid_y, bid_x])"
    by (simp add: a1_store_def)
  have 3: "read_failure open_backend = read_failure z_first_backend"
    by (simp add: example_defs)
  have 4: "map bidder_id
     (top_bids (filter (\<lambda>b. auction_id b = route_id (a1_page None Active 0))
        (bids (a1_store [bid_x, bid_y])))) = [''y'']"
    by (simp add: top_bids_def example_defs)
  have h: "\<forall>b \<in> set (top_bids (filter (\<lambda>b. auction_id b = route_id (a1_page None Active 0))
        (bids (a1_store [bid_x, bid_y])))).
      \<forall>c \<in> set (top_bids (filter (\<lambda>b. auction_id b = route_id (a1_page None Active 0))
        (bids (a1_store [bid_x, bid_y])))). bidder_id b = bidder_id c"
    by (simp add: top_bids_def example_defs)
  note r = fetchWinnerDetails_repeated [OF 1 2 3, of "a1_page None Active 0"]
  have 5: "fetchWinnerDetails open_backend (a1_page None Active 0) (a1_store [bid_x, bid_y])
     = fetchWinnerDetails z_first_backend (a1_page None Active 0) (a1_store [bid_y, bid_x])"
    using r [THEN conjunct1] h by (rule mp)
  have 6: "winner (fetchWinnerDetails z_first_backend (a1_page None Active 0)
      (a1_store [bid_y, bid_x])) = Some \<lparr>user_name = ''Y'', bid_amount = 200\<rparr>"
    by (simp add: winner_defs example_defs)
  have g: "route_id (a1_page None Active 0) \<noteq> [] \<and> read_failure open_backend = None \<and>
      filter (\<lambda>b. auction_id b = route_id (a1_page None Active 0)) (bids (a1_store [bid_y, bid_z]))
        \<noteq> [] \<and>
      (\<forall>b \<in> set (top_bids (filter (\<lambda>b. auction_id b = route_id (a1_page None Active 0))
          (bids (a1_store [bid_y, bid_z])))).
         find (\<lambda>r. profile_id r = bidder_id b) (profiles (a1_store [bid_y, bid_z])) \<noteq> None)"
    by (simp add: top_bids_def example_defs)
  have 7: "\<exists>w w'.
      winner (fetchWinnerDetails open_backend (a1_page None Active 0) (a1_store [bid_y, bid_z]))
        = Some w \<and>
      winner (fetchWinnerDetails z_first_backend (a1_page None Active 0) (a1_store [bid_y, bid_z]))
        = Some w' \<and>
      bid_amount w = bid_amount w'"
    using fetchWinnerDetails_repeated
      [OF refl refl 3, of "a1_page None Active 0" "a1_store [bid_y, bid_z]", THEN conjunct2] g
    by (rule mp)
  show ?thesis by (intro conjI) (rule 1 2 3 4 5 6 7)+
qed

text \<open>
  Claim C8 as stated (every invocation on a fixed set of bids returns the same winner)
  fails. The tied bids of \<open>y\<close> and \<open>z\<close> give winner \<open>y\<close> or winner \<open>z\<close> with the table
  order, and with the store for one table order. The tied bids of \<open>y\<close> and of \<open>w\<close>, who
  has no profile, give winner \<open>y\<close> at 200 in one table order and no winner in the other.
\<close>

theorem fetchWinnerDetails_repeated_counterexample:
  "mset (bids (a1_store [bid_y, bid_z])) = mset (bids (a1_store [bid_z, bid_y])) \<and>
   winner (fetchWinnerDetails open_backend (a1_page None Active 0) (a1_store [bid_y, bid_z]))
     = Some \<lparr>user_name = ''Y'', bid_amount = 200\<rparr> \<and>
   winner (fetchWinnerDetails open_backend (a1_page None Active 0) (a1_store [bid_z, bid_y]))
     = Some \<lparr>user_name = ''Z'', bid_amount = 200\<rparr> \<and>
   winner (fetchWinnerDetails z_first_backend (a1_page None Active 0) (a1_store [bid_y, bid_z]))
     = Some \<lparr>user_name = ''Z'', bid_amount = 200\<rparr> \<and>
   mset (bids (a1_store [bid_y, bid_w])) = mset (bids (a1_store [bid_w, bid_y])) \<and>
   winner (fetchWinnerDetails open_backend (a1_page None Active 0) (a1_store [bid_y, bid_w]))
     = Some \<lparr>user_name = ''Y'', bid_amount = 200\<rparr> \<and>
   winner (fetchWinnerDetails open_backend (a1_page None Active 0) (a1_store [bid_w, bid_y]))
     = None"
  by (simp add: winner_defs example_defs)

end
